theory Spec2Isabelle
  imports Main "HOL-Library.Char_ord" "HOL-Library.List_Lexorder" "HOL-Library.Multiset"
begin

section \<open>Protocol errors and Python exceptions\<close>

text \<open>
  The simulator script imports a single exception class, \<open>JSVVError\<close>, from the helper
  library. The four protocol error kinds are the taxonomy of the specification; the
  message is what \<open>str(exc)\<close> returns.
\<close>

datatype jsvv_kind = InvalidCommand | MalformedFrame | ChecksumMismatch | UnknownScenario

datatype JSVVError = JSVVError jsvv_kind string

fun str :: "JSVVError \<Rightarrow> string" where
  "str (JSVVError k m) = m"

text \<open>
  Exceptions that can leave the functions of the script: a protocol error, or the
  \<open>KeyError\<close> of a subscript on the scenario dictionary.
\<close>

datatype exn = Protocol JSVVError | KeyError string

section \<open>Data model of the library\<close>

text \<open>
  Modelled from the spec: the classes of the data model live in \<open>jsvv.client\<close> and
  \<open>jsvv.simulator\<close>, which are not among the sources. The records below follow section 3
  of the specification: identity, command (the scenario event \<open>SimulationEvent\<close>, a
  command without identity), payload, frame and simulation result. The identifiers are
  Python integers, as the command line parser delivers them.
\<close>

record identity =
  i_network_id :: int
  i_vyc_id :: int
  i_kpps_address :: string
  i_operator_id :: "int option"

record SimulationEvent =
  message_id :: string
  parameters :: "string list"
  priority :: "string option"
  timestamp :: "int option"

record payload =
  p_identity :: identity
  p_message_id :: string
  p_parameters :: "string list"
  p_priority :: string
  p_timestamp :: int
  p_checksum :: nat

record frame =
  f_raw :: string
  f_payload :: payload

record simulation_result =
  raw :: string
  json :: payload
  r_note :: "string option"
  duplicate :: bool

text \<open>
  Modelled from the spec: the codec of \<open>jsvv.client\<close> is not among the sources. These are
  the parts of it that the specification names and does not fix: the schema check of a
  command (\<open>None\<close> accepts it), the normalisation of the parameters, the default
  priority level, the checksum function, the serialisation of a payload to the
  delimited wire string, and the informational note of a message identifier.
\<close>

record codec =
  validate :: "SimulationEvent \<Rightarrow> JSVVError option"
  normalize :: "string list \<Rightarrow> string list"
  default_priority :: string
  checksum :: "identity \<Rightarrow> string \<Rightarrow> string list \<Rightarrow> string \<Rightarrow> int \<Rightarrow> nat"
  serialize :: "payload \<Rightarrow> string"
  note_for :: "string \<Rightarrow> string option"

section \<open>Frame codec: encoding\<close>

text \<open>
  Modelled from the spec: the module \<open>jsvv.client\<close> with the frame codec is not among
  the sources. Encoding validates the command, builds the payload (identity fields,
  message identifier, normalised parameters, resolved priority, resolved timestamp),
  computes the checksum over it, appends the checksum and serialises. The priority
  defaults to the protocol level and the timestamp to the current time \<open>now\<close>.
\<close>

definition encode :: "codec \<Rightarrow> int \<Rightarrow> identity \<Rightarrow> SimulationEvent \<Rightarrow> JSVVError + frame" where
  "encode cd now ident cmd =
     (case validate cd cmd of
        Some e \<Rightarrow> Inl e
      | None \<Rightarrow>
          (let ps = normalize cd (parameters cmd);
               pr = (case priority cmd of None \<Rightarrow> default_priority cd | Some p \<Rightarrow> p);
               ts = (case timestamp cmd of None \<Rightarrow> now | Some t \<Rightarrow> t);
               pl = \<lparr>p_identity = ident, p_message_id = message_id cmd, p_parameters = ps,
                     p_priority = pr, p_timestamp = ts,
                     p_checksum = checksum cd ident (message_id cmd) ps pr ts\<rparr>
           in Inr \<lparr>f_raw = serialize cd pl, f_payload = pl\<rparr>))"

section \<open>Deduplication window\<close>

text \<open>
  Modelled from the spec: the fingerprint combines identity, message identifier,
  parameters and the resolved priority; the timestamp is not part of it.
\<close>

type_synonym fingerprint = "identity \<times> string \<times> string list \<times> string"

type_synonym dedup_window = "fingerprint \<rightharpoonup> int"

text \<open>
  Modelled from the spec: the module \<open>jsvv.simulator\<close> with the deduplication window is
  not among the sources. A command is a duplicate iff an entry for its fingerprint
  exists and \<open>at_time - last_seen_at < window_length\<close>; the entry is set to \<open>at_time\<close>
  in every case.
\<close>

definition check_and_record ::
  "int \<Rightarrow> dedup_window \<Rightarrow> fingerprint \<Rightarrow> int \<Rightarrow> bool \<times> dedup_window" where
  "check_and_record window_length w fp at_time =
     ((case w fp of None \<Rightarrow> False | Some last_seen_at \<Rightarrow> at_time - last_seen_at < window_length),
      w(fp \<mapsto> at_time))"

section \<open>Simulation harness\<close>

record harness =
  ident :: identity
  window_length :: int
  window :: dedup_window

text \<open>
  Modelled from the spec: the class \<open>JSVVSimulator\<close> of \<open>jsvv.simulator\<close> is not among the
  sources. A harness is constructed with its identity and an empty window.
\<close>

definition JSVVSimulator :: "int \<Rightarrow> identity \<Rightarrow> harness" where
  "JSVVSimulator wl i = \<lparr>ident = i, window_length = wl, window = Map.empty\<rparr>"

text \<open>
  Modelled from the spec: \<open>JSVVSimulator.emit\<close> is not among the sources. One emission
  builds the command, encodes it, derives the fingerprint, asks the deduplication
  window at the resolved timestamp and returns the result. A failed encoding raises
  and leaves the window as it was.
\<close>

definition emit_result ::
  "codec \<Rightarrow> int \<Rightarrow> harness \<Rightarrow> SimulationEvent \<Rightarrow> (JSVVError + simulation_result) \<times> harness" where
  "emit_result cd now h cmd =
     (case encode cd now (ident h) cmd of
        Inl e \<Rightarrow> (Inl e, h)
      | Inr fr \<Rightarrow>
          (let pl = f_payload fr;
               fp = (ident h, message_id cmd, parameters cmd, p_priority pl);
               (dup, w') = check_and_record (window_length h) (window h) fp (p_timestamp pl)
           in (Inr \<lparr>raw = f_raw fr, json = pl, r_note = note_for cd (message_id cmd), duplicate = dup\<rparr>,
               h\<lparr>window := w'\<rparr>)))"

text \<open>
  Modelled from the spec: \<open>emit\<close> as the script calls it, with the message identifier, the
  parameters and the optional priority and timestamp; it returns the raw frame, the
  payload and the duplicate flag.
\<close>

definition emit ::
  "codec \<Rightarrow> int \<Rightarrow> harness \<Rightarrow> string \<Rightarrow> string list \<Rightarrow> string option \<Rightarrow> int option
     \<Rightarrow> (JSVVError + string \<times> payload \<times> bool) \<times> harness" where
  "emit cd now h mid params prio ts =
     (case emit_result cd now h
             \<lparr>message_id = mid, parameters = params, priority = prio, timestamp = ts\<rparr> of
        (Inl e, h') \<Rightarrow> (Inl e, h')
      | (Inr r, h') \<Rightarrow> (Inr (raw r, json r, duplicate r), h'))"

text \<open>
  Modelled from the spec: \<open>JSVVSimulator.run\<close> is not among the sources. It is a lazy
  sequence over the events in their order; the window left by one event is the one the
  next event sees. The model returns the results produced, the error that ended the
  sequence (if any) and the harness afterwards. \<open>clock i\<close> is the current time read
  when event \<open>i\<close> is encoded.
\<close>

fun run ::
  "codec \<Rightarrow> (nat \<Rightarrow> int) \<Rightarrow> harness \<Rightarrow> SimulationEvent list
     \<Rightarrow> simulation_result list \<times> JSVVError option \<times> harness" where
  "run cd clock h [] = ([], None, h)"
| "run cd clock h (e # es) =
     (case emit_result cd (clock 0) h e of
        (Inl err, h') \<Rightarrow> ([], Some err, h')
      | (Inr r, h') \<Rightarrow>
          (case run cd (\<lambda>i. clock (Suc i)) h' es of
             (rs, x, h'') \<Rightarrow> (r # rs, x, h'')))"

section \<open>The simulator script\<close>

text \<open>
  The scenario registry \<open>SCENARIOS\<close> is a dictionary of the library; it is a parameter
  here, as an association list in insertion order.
\<close>

type_synonym registry = "(string \<times> SimulationEvent list) list"

definition keys :: "registry \<Rightarrow> string list" where
  "keys reg = map fst reg"

text \<open>
  The namespace that \<open>parse_args\<close> returns: the four identity options and the
  subcommand with its own arguments.
\<close>

datatype subcommand =
    List
  | Scenario string bool
  | Emit string "string list" "string option" "int option" bool

record args =
  network_id :: int
  vyc_id :: int
  kpps_address :: string
  operator_id :: "int option"
  command :: subcommand

text \<open>
  \<open>parse_args\<close>: of the checks of the argument parser only the one the script declares
  itself is modelled, \<open>choices=sorted(SCENARIOS.keys())\<close> on the scenario name. A value
  outside the choices makes the parser print its usage to standard error and exit with
  status 2.
\<close>

definition parse_args :: "registry \<Rightarrow> args \<Rightarrow> int + args" where
  "parse_args reg a =
     (case command a of
        Scenario name pretty \<Rightarrow> if name \<in> set (sort (keys reg)) then Inr a else Inl 2
      | _ \<Rightarrow> Inr a)"

definition build_simulator :: "int \<Rightarrow> args \<Rightarrow> harness" where
  "build_simulator wl a =
     JSVVSimulator wl \<lparr>i_network_id = network_id a, i_vyc_id = vyc_id a,
                       i_kpps_address = kpps_address a, i_operator_id = operator_id a\<rparr>"

text \<open>Standard output is the list of the lines printed, one per call of \<open>print\<close>.\<close>

definition run_list :: "registry \<Rightarrow> string list \<times> int" where
  "run_list reg = (sort (keys reg), 0)"

definition indent_of :: "bool \<Rightarrow> nat option" where
  "indent_of pretty = (if pretty then Some 2 else None)"

text \<open>
  The body of the loop of \<open>run_scenario\<close>: the lines printed for one result. \<open>dumps\<close> is
  \<open>json.dumps\<close>. A note that is \<open>None\<close> or empty is falsy and prints nothing.
\<close>

definition print_result ::
  "(payload \<Rightarrow> nat option \<Rightarrow> string) \<Rightarrow> nat option \<Rightarrow> simulation_result \<Rightarrow> string list" where
  "print_result dumps indent result =
     [raw result, dumps (json result) indent]
     @ (case r_note result of
          None \<Rightarrow> []
        | Some n \<Rightarrow> if n = [] then [] else [''# '' @ n])
     @ (if duplicate result then [''# duplicate within dedup window''] else [])
     @ [[]]"

text \<open>
  \<open>run_scenario\<close> builds the simulator, subscripts the registry (a \<open>KeyError\<close> for a
  missing name) and prints every result of the lazy \<open>run\<close>. Nothing catches a protocol
  error of \<open>run\<close>: the lines of the results before it are printed, then it leaves the
  function. The value is the output, the simulator afterwards and the return code or
  the exception.
\<close>

definition run_scenario ::
  "registry \<Rightarrow> codec \<Rightarrow> int \<Rightarrow> (nat \<Rightarrow> int) \<Rightarrow> (payload \<Rightarrow> nat option \<Rightarrow> string)
     \<Rightarrow> args \<Rightarrow> string \<Rightarrow> bool \<Rightarrow> string list \<times> harness \<times> (exn + int)" where
  "run_scenario reg cd wl clock dumps a name pretty =
     (let simulator = build_simulator wl a in
      case map_of reg name of
        None \<Rightarrow> ([], simulator, Inl (KeyError name))
      | Some events \<Rightarrow>
          (let indent = indent_of pretty in
           case run cd clock simulator events of
             (results, None, simulator') \<Rightarrow>
               (concat (map (print_result dumps indent) results), simulator', Inr 0)
           | (results, Some exc, simulator') \<Rightarrow>
               (concat (map (print_result dumps indent) results), simulator', Inl (Protocol exc))))"

text \<open>
  \<open>run_emit\<close> builds the simulator and calls its method \<open>emit\<close>, which is the parameter
  \<open>emit_fn\<close> here. It catches the protocol error of that call, prints it and returns 1;
  otherwise it prints the raw frame, the rendered payload and, for a duplicate, the
  marker.
\<close>

definition run_emit ::
  "(harness \<Rightarrow> string \<Rightarrow> string list \<Rightarrow> string option \<Rightarrow> int option
      \<Rightarrow> (JSVVError + string \<times> payload \<times> bool) \<times> harness)
     \<Rightarrow> int \<Rightarrow> (payload \<Rightarrow> nat option \<Rightarrow> string)
     \<Rightarrow> args \<Rightarrow> string \<Rightarrow> string list \<Rightarrow> string option \<Rightarrow> int option \<Rightarrow> bool
     \<Rightarrow> string list \<times> harness \<times> (exn + int)" where
  "run_emit emit_fn wl dumps a mid params prio ts pretty =
     (let simulator = build_simulator wl a in
      case emit_fn simulator mid params prio ts of
        (Inl exc, simulator') \<Rightarrow> ([''Error: '' @ str exc], simulator', Inr 1)
      | (Inr (raw_frame, pl, dup), simulator') \<Rightarrow>
          (let indent = indent_of pretty in
           ([raw_frame, dumps pl indent]
            @ (if dup then [''# duplicate within dedup window''] else []),
            simulator', Inr 0)))"

text \<open>
  How the process ends: \<open>SystemExit\<close> with a code, or an exception nothing caught, for
  which the interpreter prints a traceback to standard error and exits with status 1.
\<close>

datatype status = SystemExit int | Uncaught exn

fun exit_code :: "status \<Rightarrow> int" where
  "exit_code (SystemExit n) = n"
| "exit_code (Uncaught e) = 1"

record process =
  stdout :: "string list"
  status :: status
  simulator :: "harness option"

definition finish :: "string list \<times> harness \<times> (exn + int) \<Rightarrow> process" where
  "finish r =
     (case r of
        (out, sim, Inr code) \<Rightarrow> \<lparr>stdout = out, status = SystemExit code, simulator = Some sim\<rparr>
      | (out, sim, Inl e) \<Rightarrow> \<lparr>stdout = out, status = Uncaught e, simulator = Some sim\<rparr>)"

text \<open>
  \<open>main\<close> parses the arguments and raises \<open>SystemExit\<close> with the return code of the
  subcommand. \<open>simulator\<close> is the harness the process built, if it built one. The method
  \<open>emit\<close> of the simulator is the modelled \<open>emit\<close> at the time of the call.
\<close>

definition main ::
  "registry \<Rightarrow> codec \<Rightarrow> int \<Rightarrow> (nat \<Rightarrow> int) \<Rightarrow> (payload \<Rightarrow> nat option \<Rightarrow> string) \<Rightarrow> args \<Rightarrow> process" where
  "main reg cd wl clock dumps argv =
     (case parse_args reg argv of
        Inl code \<Rightarrow> \<lparr>stdout = [], status = SystemExit code, simulator = None\<rparr>
      | Inr a \<Rightarrow>
          (case command a of
             List \<Rightarrow>
               (case run_list reg of
                  (out, code) \<Rightarrow> \<lparr>stdout = out, status = SystemExit code, simulator = None\<rparr>)
           | Scenario name pretty \<Rightarrow> finish (run_scenario reg cd wl clock dumps a name pretty)
           | Emit mid params prio ts pretty \<Rightarrow>
               finish (run_emit (emit cd (clock 0)) wl dumps a mid params prio ts pretty)))"

text \<open>Whether the process ended with a protocol error of the kind \<open>UnknownScenario\<close>.\<close>

fun raises_UnknownScenario :: "status \<Rightarrow> bool" where
  "raises_UnknownScenario (Uncaught (Protocol (JSVVError UnknownScenario m))) = True"
| "raises_UnknownScenario s = False"


section \<open>An instance for evaluation\<close>

text \<open>
  A small codec that accepts the message identifier \<open>SIREN\<close> only, a rendering of
  payloads, an argument namespace, a registry whose events the codec accepts and a
  registry with an event it rejects. They serve to evaluate the definitions on concrete
  inputs.
\<close>

definition demo_codec :: codec where
  "demo_codec =
     \<lparr>validate = (\<lambda>c. if message_id c = ''SIREN'' then None
                        else Some (JSVVError InvalidCommand ''unknown message id'')),
      normalize = (\<lambda>ps. ps),
      default_priority = ''P2'',
      checksum = (\<lambda>i m ps pr ts. length m + length ps),
      serialize = (\<lambda>p. p_message_id p),
      note_for = (\<lambda>m. None)\<rparr>"

definition demo_dumps :: "payload \<Rightarrow> nat option \<Rightarrow> string" where
  "demo_dumps p indent = p_message_id p"

definition demo_args :: "subcommand \<Rightarrow> args" where
  "demo_args c =
     \<lparr>network_id = 1, vyc_id = 1, kpps_address = ''0x0001'', operator_id = None, command = c\<rparr>"

definition siren :: "int \<Rightarrow> SimulationEvent" where
  "siren t =
     \<lparr>message_id = ''SIREN'', parameters = [''STEADY_TONE''], priority = None, timestamp = Some t\<rparr>"

definition bogus :: "int \<Rightarrow> SimulationEvent" where
  "bogus t = \<lparr>message_id = ''BOGUS'', parameters = [], priority = None, timestamp = Some t\<rparr>"


text \<open>
  The method \<open>emit\<close> of a simulator that has emitted the same command at time 1000
  before.
\<close>

definition seen_emit ::
  "harness \<Rightarrow> string \<Rightarrow> string list \<Rightarrow> string option \<Rightarrow> int option
     \<Rightarrow> (JSVVError + string \<times> payload \<times> bool) \<times> harness" where
  "seen_emit h mid params prio ts =
     emit demo_codec 0 (snd (emit demo_codec 0 h mid params prio (Some 1000))) mid params prio ts"

definition demo_registry :: registry where
  "demo_registry =
     [(''siren'', [siren 1000, siren 1002, siren 1010]),
      (''broken'', [siren 1000, bogus 1001, siren 1002])]"

section \<open>The deduplication window\<close>

text \<open>
  Claim C2. For every fingerprint and time, \<open>check_and_record\<close> answers "duplicate"
  exactly when the window holds an entry for the fingerprint and the time minus that
  entry's \<open>last_seen_at\<close> is strictly below the window length; whatever the answer, the
  entry of the fingerprint is the given time afterwards, and no other entry changes.
\<close>

theorem check_and_record_duplicate_iff:
  "fst (check_and_record wl w fp t) = (\<exists>last. w fp = Some last \<and> t - last < wl)
   \<and> snd (check_and_record wl w fp t) fp = Some t
   \<and> snd (check_and_record wl w fp t) = w(fp \<mapsto> t)"
  by (simp add: check_and_record_def split: option.splits)

text \<open>
  Claim C3. With a window length of 5, a fresh harness that emits \<open>SIREN\<close> with the
  parameters \<open>["STEADY_TONE"]\<close> at the timestamps 1000, 1002 and 1010, under one identity
  and one priority, reports the duplicate flags false, true, false in that order. The
  codec is any codec that accepts the three commands.
\<close>

theorem siren_steady_tone_flags:
  assumes v1: "validate cd \<lparr>message_id = ''SIREN'', parameters = [''STEADY_TONE''],
                             priority = prio, timestamp = Some 1000\<rparr> = None"
    and v2: "validate cd \<lparr>message_id = ''SIREN'', parameters = [''STEADY_TONE''],
                           priority = prio, timestamp = Some 1002\<rparr> = None"
    and v3: "validate cd \<lparr>message_id = ''SIREN'', parameters = [''STEADY_TONE''],
                           priority = prio, timestamp = Some 1010\<rparr> = None"
  shows "\<exists>r1 p1 h1 r2 p2 h2 r3 p3 h3.
           emit cd n1 (JSVVSimulator 5 i) ''SIREN'' [''STEADY_TONE''] prio (Some 1000)
             = (Inr (r1, p1, False), h1)
         \<and> emit cd n2 h1 ''SIREN'' [''STEADY_TONE''] prio (Some 1002) = (Inr (r2, p2, True), h2)
         \<and> emit cd n3 h2 ''SIREN'' [''STEADY_TONE''] prio (Some 1010) = (Inr (r3, p3, False), h3)"
  using v1 v2 v3
  by (simp add: emit_def emit_result_def encode_def check_and_record_def JSVVSimulator_def Let_def)

theorem siren_steady_tone_flags_witness:
  "validate demo_codec (siren 1000) = None
   \<and> validate demo_codec (siren 1002) = None
   \<and> validate demo_codec (siren 1010) = None
   \<and> (\<exists>r1 p1 h1 r2 p2 h2 r3 p3 h3.
         emit demo_codec 7 (JSVVSimulator 5 (ident (build_simulator 5 (demo_args List))))
              ''SIREN'' [''STEADY_TONE''] None (Some 1000)
           = (Inr (r1, p1, False), h1)
       \<and> emit demo_codec 8 h1 ''SIREN'' [''STEADY_TONE''] None (Some 1002)
           = (Inr (r2, p2, True), h2)
       \<and> emit demo_codec 9 h2 ''SIREN'' [''STEADY_TONE''] None (Some 1010)
           = (Inr (r3, p3, False), h3))"
  using siren_steady_tone_flags
          [of demo_codec None 7 "ident (build_simulator 5 (demo_args List))" 8 9]
  by (simp add: demo_codec_def siren_def)

section \<open>Replaying a sequence\<close>

lemma emit_result_fail:
  "encode cd now (ident h) e = Inl err \<Longrightarrow> emit_result cd now h e = (Inl err, h)"
  by (simp add: emit_result_def)

lemma emit_result_ok:
  "encode cd now (ident h) e = Inr fr \<Longrightarrow>
     \<exists>r h'. emit_result cd now h e = (Inr r, h') \<and> ident h' = ident h"
  by (simp add: emit_result_def Let_def split: prod.splits)

text \<open>
  The first event whose encoding fails ends the sequence: by induction on the events,
  with the clock and the harness generalised, since both change from one event to the
  next.
\<close>

lemma run_stops_at_failure:
  "k < length es \<Longrightarrow> encode cd (clock k) (ident h) (es ! k) = Inl err \<Longrightarrow>
   (\<forall>i<k. \<exists>fr. encode cd (clock i) (ident h) (es ! i) = Inr fr) \<Longrightarrow>
   run cd clock h es
     = (fst (run cd clock h (take k es)), Some err, snd (snd (run cd clock h (take k es))))
   \<and> fst (snd (run cd clock h (take k es))) = None
   \<and> length (fst (run cd clock h (take k es))) = k"
proof (induction es arbitrary: k clock h)
  case Nil
  then show ?case by simp
next
  case (Cons e es)
  show ?case
  proof (cases k)
    case 0
    with Cons.prems have "encode cd (clock 0) (ident h) e = Inl err" by simp
    then have "emit_result cd (clock 0) h e = (Inl err, h)" by (rule emit_result_fail)
    with 0 show ?thesis by simp
  next
    case (Suc j)
    from Cons.prems Suc have "\<exists>fr. encode cd (clock 0) (ident h) ((e # es) ! 0) = Inr fr"
      by blast
    then obtain fr where "encode cd (clock 0) (ident h) e = Inr fr" by auto
    from emit_result_ok [OF this] obtain r h' where
      step: "emit_result cd (clock 0) h e = (Inr r, h')" and id: "ident h' = ident h" by blast
    have j: "j < length es" using Cons.prems Suc by simp
    have f: "encode cd (clock (Suc j)) (ident h') (es ! j) = Inl err"
      using Cons.prems Suc id by simp
    have g: "\<forall>i<j. \<exists>fr. encode cd (clock (Suc i)) (ident h') (es ! i) = Inr fr"
    proof (intro allI impI)
      fix i assume "i < j"
      then have "Suc i < k" using Suc by simp
      with Cons.prems have "\<exists>fr. encode cd (clock (Suc i)) (ident h) ((e # es) ! Suc i) = Inr fr"
        by blast
      then show "\<exists>fr. encode cd (clock (Suc i)) (ident h') (es ! i) = Inr fr"
        using id by simp
    qed
    from Cons.IH [of j "\<lambda>i. clock (Suc i)" h', OF j f g]
    show ?thesis using step Suc by (simp add: split_beta)
  qed
qed

text \<open>
  Claim C6. If the encoding of event \<open>k\<close> of a sequence fails, and the events before it
  encode, then \<open>run\<close> ends with that error; the results it has produced are exactly the
  \<open>k\<close> results of running the events before \<open>k\<close> alone, and the harness is the one those
  \<open>k\<close> events leave: no later event is processed.
\<close>

theorem run_aborts_at_failed_encoding:
  assumes k: "k < length es"
    and fail: "encode cd (clock k) (ident h) (es ! k) = Inl err"
    and before: "\<forall>i<k. \<exists>fr. encode cd (clock i) (ident h) (es ! i) = Inr fr"
  shows "run cd clock h es
           = (fst (run cd clock h (take k es)), Some err, snd (snd (run cd clock h (take k es))))
         \<and> fst (snd (run cd clock h (take k es))) = None
         \<and> length (fst (run cd clock h (take k es))) = k"
  using run_stops_at_failure [OF k fail before] .

theorem run_aborts_at_failed_encoding_witness:
  "(1::nat) < length [siren 1000, bogus 1001, siren 1002]
   \<and> encode demo_codec 0 (ident (build_simulator 5 (demo_args List))) ([siren 1000, bogus 1001, siren 1002] ! 1)
       = Inl (JSVVError InvalidCommand ''unknown message id'')
   \<and> (\<exists>fr. encode demo_codec 0 (ident (build_simulator 5 (demo_args List)))
               ([siren 1000, bogus 1001, siren 1002] ! 0) = Inr fr)
   \<and> run demo_codec (\<lambda>n. 0) (build_simulator 5 (demo_args List)) [siren 1000, bogus 1001, siren 1002]
       = (fst (run demo_codec (\<lambda>n. 0) (build_simulator 5 (demo_args List)) [siren 1000]),
          Some (JSVVError InvalidCommand ''unknown message id''),
          snd (snd (run demo_codec (\<lambda>n. 0) (build_simulator 5 (demo_args List)) [siren 1000])))"
proof -
  have a: "(1::nat) < length [siren 1000, bogus 1001, siren 1002]" by simp
  have b: "encode demo_codec ((\<lambda>n. 0) (1::nat)) (ident (build_simulator 5 (demo_args List)))
             ([siren 1000, bogus 1001, siren 1002] ! 1)
           = Inl (JSVVError InvalidCommand ''unknown message id'')"
    by (simp add: encode_def demo_codec_def bogus_def)
  have c: "\<forall>j<1. \<exists>fr. encode demo_codec ((\<lambda>n. 0) j) (ident (build_simulator 5 (demo_args List)))
                      ([siren 1000, bogus 1001, siren 1002] ! j) = Inr fr"
    by (simp add: encode_def demo_codec_def siren_def Let_def)
  have d: "\<exists>fr. encode demo_codec 0 (ident (build_simulator 5 (demo_args List)))
                  ([siren 1000, bogus 1001, siren 1002] ! 0) = Inr fr"
    using c by simp
  from run_aborts_at_failed_encoding [OF a b c] a b d show ?thesis by simp
qed

text \<open>
  In the script the error leaves \<open>run_scenario\<close> after the blocks of the results before
  it have been printed.
\<close>

lemma run_scenario_propagates_failure:
  assumes reg: "map_of reg name = Some es"
    and k: "k < length es"
    and fail: "encode cd (clock k) (ident (build_simulator wl a)) (es ! k) = Inl err"
    and before: "\<forall>i<k. \<exists>fr. encode cd (clock i) (ident (build_simulator wl a)) (es ! i) = Inr fr"
  shows "run_scenario reg cd wl clock dumps a name pretty
           = (concat (map (print_result dumps (indent_of pretty))
                          (fst (run cd clock (build_simulator wl a) (take k es)))),
              snd (snd (run cd clock (build_simulator wl a) (take k es))),
              Inl (Protocol err))"
  using run_stops_at_failure [OF k fail before] reg
  by (simp add: run_scenario_def Let_def)

section \<open>Unknown scenario names\<close>

text \<open>
  Claim C7, as the script has it. A scenario name that is not a key of the registry is
  rejected by the argument parser: the process exits with status 2, prints nothing on
  standard output and builds no harness. \<open>run_scenario\<close> itself, called with such a name,
  fails with the \<open>KeyError\<close> of the dictionary subscript and leaves the harness as it
  was built, with an empty window. In neither case is there an emission, and in neither
  is the failure a protocol error.
\<close>

theorem unknown_scenario_rejected_without_emission:
  assumes "name \<notin> set (keys reg)" and "command a = Scenario name pretty"
  shows "main reg cd wl clock dumps a = \<lparr>stdout = [], status = SystemExit 2, simulator = None\<rparr>
       \<and> run_scenario reg cd wl clock dumps a name pretty
           = ([], build_simulator wl a, Inl (KeyError name))
       \<and> window (build_simulator wl a) = Map.empty"
proof -
  from assms(1) have "map_of reg name = None"
    by (simp add: keys_def map_of_eq_None_iff)
  with assms show ?thesis
    by (simp add: main_def parse_args_def run_scenario_def Let_def build_simulator_def
          JSVVSimulator_def)
qed

theorem unknown_scenario_rejected_without_emission_witness:
  "''nope'' \<notin> set (keys demo_registry)
   \<and> command (demo_args (Scenario ''nope'' True)) = Scenario ''nope'' True
   \<and> main demo_registry demo_codec 5 (\<lambda>n. 0) demo_dumps (demo_args (Scenario ''nope'' True))
       = \<lparr>stdout = [], status = SystemExit 2, simulator = None\<rparr>
   \<and> run_scenario demo_registry demo_codec 5 (\<lambda>n. 0) demo_dumps
         (demo_args (Scenario ''nope'' True)) ''nope'' True
       = ([], build_simulator 5 (demo_args (Scenario ''nope'' True)), Inl (KeyError ''nope''))"
proof -
  have a: "''nope'' \<notin> set (keys demo_registry)"
    by (simp add: keys_def demo_registry_def)
  have b: "command (demo_args (Scenario ''nope'' True)) = Scenario ''nope'' True"
    by (simp add: demo_args_def)
  from unknown_scenario_rejected_without_emission [OF a b] a b show ?thesis by simp
qed

text \<open>
  The claim as the specification words it fails: for the name \<open>nope\<close>, which the registry
  does not hold, the process ends with \<open>SystemExit 2\<close> from the argument parser and
  \<open>run_scenario\<close> raises \<open>KeyError\<close>; neither is \<open>UnknownScenario\<close>.
\<close>

theorem unknown_scenario_counterexample:
  "status (main demo_registry demo_codec 5 (\<lambda>n. 0) demo_dumps (demo_args (Scenario ''nope'' False)))
     = SystemExit 2
   \<and> \<not> raises_UnknownScenario
         (status (main demo_registry demo_codec 5 (\<lambda>n. 0) demo_dumps
                    (demo_args (Scenario ''nope'' False))))
   \<and> snd (snd (run_scenario demo_registry demo_codec 5 (\<lambda>n. 0) demo_dumps
                  (demo_args (Scenario ''nope'' False)) ''nope'' False))
     = Inl (KeyError ''nope'')"
  by (simp add: main_def parse_args_def demo_args_def demo_registry_def keys_def
        run_scenario_def Let_def)

section \<open>Exit codes and diagnostics\<close>







section \<open>What the subcommands print\<close>

lemma run_scenario_output:
  "map_of reg name = Some es \<Longrightarrow>
   fst (run_scenario reg cd wl clock dumps a name pretty)
     = concat (map (print_result dumps (indent_of pretty))
                   (fst (run cd clock (build_simulator wl a) es)))"
  by (simp add: run_scenario_def Let_def split: prod.splits option.splits)

text \<open>
  Claim C9. Whatever the method \<open>emit\<close> of the simulator returns on success, with the
  duplicate flag set or not, \<open>emit\<close> of the script prints the raw frame and the rendered
  payload, followed by the duplicate marker exactly when the flag is set, and returns
  0. \<open>scenario\<close> prints for every result the raw frame, the rendered payload, the note if
  there is one, the marker exactly when the flag is set, and an empty line. Setting the
  flag of a result changes its block by the marker line only.
\<close>

theorem duplicate_flag_only_adds_marker:
  assumes em: "emit_fn (build_simulator wl a) mid params prio ts = (Inr (rw, pl, dup), h')"
    and reg: "map_of reg name = Some es"
  shows "fst (run_emit emit_fn wl dumps a mid params prio ts pretty)
           = [rw, dumps pl (indent_of pretty)]
             @ (if dup then [''# duplicate within dedup window''] else [])
       \<and> snd (snd (run_emit emit_fn wl dumps a mid params prio ts pretty)) = Inr 0
       \<and> fst (run_scenario reg cd wl clock dumps a name pretty')
           = concat (map (\<lambda>r. [raw r, dumps (json r) (indent_of pretty')]
                               @ (case r_note r of None \<Rightarrow> []
                                  | Some n \<Rightarrow> if n = [] then [] else [''# '' @ n])
                               @ (if duplicate r then [''# duplicate within dedup window'']
                                  else [])
                               @ [[]])
                         (fst (run cd clock (build_simulator wl a) es)))
       \<and> print_result dumps ind (r\<lparr>duplicate := True\<rparr>)
           = butlast (print_result dumps ind (r\<lparr>duplicate := False\<rparr>))
             @ [''# duplicate within dedup window'', []]"
proof -
  have 1: "fst (run_emit emit_fn wl dumps a mid params prio ts pretty)
           = [rw, dumps pl (indent_of pretty)]
             @ (if dup then [''# duplicate within dedup window''] else [])
         \<and> snd (snd (run_emit emit_fn wl dumps a mid params prio ts pretty)) = Inr 0"
    using em by (simp add: run_emit_def Let_def)
  have 2: "print_result dumps (indent_of pretty')
           = (\<lambda>r. [raw r, dumps (json r) (indent_of pretty')]
                   @ (case r_note r of None \<Rightarrow> []
                      | Some n \<Rightarrow> if n = [] then [] else [''# '' @ n])
                   @ (if duplicate r then [''# duplicate within dedup window''] else [])
                   @ [[]])"
    by (rule ext) (simp add: print_result_def)
  have 3: "print_result dumps ind (r\<lparr>duplicate := True\<rparr>)
           = butlast (print_result dumps ind (r\<lparr>duplicate := False\<rparr>))
             @ [''# duplicate within dedup window'', []]"
    by (simp add: print_result_def butlast_append split: option.splits)
  from 1 2 3 run_scenario_output [OF reg, of cd wl clock dumps a pretty'] show ?thesis
    by simp
qed

theorem duplicate_flag_only_adds_marker_witness:
  "seen_emit (build_simulator 5 (demo_args List)) ''SIREN'' [''STEADY_TONE''] None (Some 1002)
     = (Inr (''SIREN'',
             \<lparr>p_identity = ident (build_simulator 5 (demo_args List)), p_message_id = ''SIREN'',
              p_parameters = [''STEADY_TONE''], p_priority = ''P2'', p_timestamp = 1002,
              p_checksum = 6\<rparr>, True),
        snd (seen_emit (build_simulator 5 (demo_args List)) ''SIREN'' [''STEADY_TONE'']
               None (Some 1002)))
   \<and> map_of demo_registry ''siren'' = Some [siren 1000, siren 1002, siren 1010]
   \<and> fst (run_emit seen_emit 5 demo_dumps (demo_args List)
             ''SIREN'' [''STEADY_TONE''] None (Some 1002) False)
       = [''SIREN'', ''SIREN'', ''# duplicate within dedup window'']
   \<and> fst (run_emit (emit demo_codec 0) 5 demo_dumps (demo_args List)
             ''SIREN'' [''STEADY_TONE''] None (Some 1002) False)
       = [''SIREN'', ''SIREN'']
   \<and> fst (run_scenario demo_registry demo_codec 5 (\<lambda>n. 0) demo_dumps (demo_args List)
             ''siren'' False)
       = [''SIREN'', ''SIREN'', [],
          ''SIREN'', ''SIREN'', ''# duplicate within dedup window'', [],
          ''SIREN'', ''SIREN'', []]"
proof -
  have a: "seen_emit (build_simulator 5 (demo_args List)) ''SIREN'' [''STEADY_TONE''] None
             (Some 1002)
     = (Inr (''SIREN'',
             \<lparr>p_identity = ident (build_simulator 5 (demo_args List)), p_message_id = ''SIREN'',
              p_parameters = [''STEADY_TONE''], p_priority = ''P2'', p_timestamp = 1002,
              p_checksum = 6\<rparr>, True),
        snd (seen_emit (build_simulator 5 (demo_args List)) ''SIREN'' [''STEADY_TONE'']
               None (Some 1002)))"
    by (simp add: seen_emit_def emit_def emit_result_def encode_def demo_codec_def
          check_and_record_def build_simulator_def JSVVSimulator_def Let_def)
  have a': "emit demo_codec 0 (build_simulator 5 (demo_args List)) ''SIREN'' [''STEADY_TONE''] None
             (Some 1002)
     = (Inr (''SIREN'',
             \<lparr>p_identity = ident (build_simulator 5 (demo_args List)), p_message_id = ''SIREN'',
              p_parameters = [''STEADY_TONE''], p_priority = ''P2'', p_timestamp = 1002,
              p_checksum = 6\<rparr>, False),
        snd (emit demo_codec 0 (build_simulator 5 (demo_args List)) ''SIREN'' [''STEADY_TONE'']
               None (Some 1002)))"
    by (simp add: emit_def emit_result_def encode_def demo_codec_def
          check_and_record_def build_simulator_def JSVVSimulator_def Let_def)
  have b: "map_of demo_registry ''siren'' = Some [siren 1000, siren 1002, siren 1010]"
    by (simp add: demo_registry_def)
  have e1: "fst (run_emit seen_emit 5 demo_dumps (demo_args List)
             ''SIREN'' [''STEADY_TONE''] None (Some 1002) False)
       = [''SIREN'', ''SIREN'', ''# duplicate within dedup window'']"
    using duplicate_flag_only_adds_marker
            [where emit_fn = seen_emit and dumps = demo_dumps and pretty = False, OF a b]
    by (simp add: demo_dumps_def)
  have e2: "fst (run_emit (emit demo_codec 0) 5 demo_dumps (demo_args List)
             ''SIREN'' [''STEADY_TONE''] None (Some 1002) False)
       = [''SIREN'', ''SIREN'']"
    using duplicate_flag_only_adds_marker
            [where emit_fn = "emit demo_codec 0" and dumps = demo_dumps and pretty = False,
             OF a' b]
    by (simp add: demo_dumps_def)
  have e3: "fst (run_scenario demo_registry demo_codec 5 (\<lambda>n. 0) demo_dumps (demo_args List)
             ''siren'' False)
       = [''SIREN'', ''SIREN'', [],
          ''SIREN'', ''SIREN'', ''# duplicate within dedup window'', [],
          ''SIREN'', ''SIREN'', []]"
    using duplicate_flag_only_adds_marker
            [where emit_fn = seen_emit and dumps = demo_dumps and pretty' = False
               and cd = demo_codec and clock = "\<lambda>n. 0", OF a b]
    by (simp add: demo_dumps_def indent_of_def emit_result_def encode_def demo_codec_def
          check_and_record_def build_simulator_def JSVVSimulator_def siren_def Let_def)
  from a b e1 e2 e3 show ?thesis by simp
qed

section \<open>Listing the scenarios\<close>

text \<open>
  Claim C10. \<open>list\<close> prints the keys of the registry, each exactly once, in ascending
  lexicographic order of their characters, and returns 0; a registry with the same
  entries in another insertion order gives the same output. The keys of a dictionary
  are distinct.
\<close>

theorem run_list_sorted_names:
  assumes "distinct (keys reg)" and "mset reg' = mset reg"
  shows "sorted (fst (run_list reg)) \<and> distinct (fst (run_list reg))
       \<and> set (fst (run_list reg)) = set (keys reg)
       \<and> length (fst (run_list reg)) = length (keys reg)
       \<and> snd (run_list reg) = 0
       \<and> run_list reg' = run_list reg"
proof -
  have "mset (keys reg') = mset (keys reg)"
    using assms(2) by (simp add: keys_def)
  then have "sort (keys reg') = sort (keys reg)"
    by (simp add: properties_for_sort)
  with assms(1) show ?thesis by (simp add: run_list_def)
qed

theorem run_list_sorted_names_witness:
  "distinct (keys demo_registry)
   \<and> mset (rev demo_registry) = mset demo_registry
   \<and> run_list demo_registry = ([''broken'', ''siren''], 0)
   \<and> run_list (rev demo_registry) = ([''broken'', ''siren''], 0)"
proof -
  have a: "distinct (keys demo_registry)" by (simp add: keys_def demo_registry_def)
  have b: "mset (rev demo_registry) = mset demo_registry" by simp
  have c: "run_list demo_registry = ([''broken'', ''siren''], 0)"
    by (simp add: run_list_def keys_def demo_registry_def)
  have d: "run_list (rev demo_registry) = run_list demo_registry"
    using run_list_sorted_names [OF a b] by simp
  show ?thesis using a b c d by simp
qed

end
